theory Spec2Isabelle
  imports Main
begin

section \<open>The quiz application: data model\<close>

text \<open>
  The application is one module, \<^verbatim>\<open>app.py\<close>: two ORM models (\<^verbatim>\<open>User\<close>, \<^verbatim>\<open>Quiz\<close>) and
  the route handlers \<^verbatim>\<open>register\<close>, \<^verbatim>\<open>login\<close>, \<^verbatim>\<open>add_sample_questions\<close> and \<^verbatim>\<open>quiz\<close>.
  Python integers are unbounded, so ids and the score are \<open>int\<close>; Python strings are
  \<open>string\<close>.
\<close>

record user =
  user_id :: int
  username :: string
  password :: string

record quiz =
  quiz_id :: int
  question :: string
  option_a :: string
  option_b :: string
  option_c :: string
  option_d :: string
  correct_answer :: string

text \<open>
  The database \<^verbatim>\<open>sqlite:///quiz.db\<close> holds one table per model. A table is the list of
  its rows in the order in which the database yields them to a query that has no
  \<^verbatim>\<open>ORDER BY\<close>; an insert puts the new row last. Nothing in the type makes that
  order the order of the ids.
\<close>

record store =
  users :: "user list"
  quizzes :: "quiz list"

definition empty_store :: store where
  "empty_store = \<lparr>users = [], quizzes = []\<rparr>"

text \<open>
  \<^verbatim>\<open>werkzeug.security\<close> is a library the module imports; its two functions are taken as
  parameters. \<^verbatim>\<open>generate_password_hash\<close> draws a random salt: the salt drawn is its
  first argument here.
\<close>

record werkzeug =
  generate_password_hash :: "string \<Rightarrow> string \<Rightarrow> string"
  check_password_hash :: "string \<Rightarrow> string \<Rightarrow> bool"

text \<open>
  The contract the application relies on: a hash verifies against the password it was
  made from, whatever the salt, and against no other.
\<close>

definition sound_hashing :: "werkzeug \<Rightarrow> bool" where
  "sound_hashing W =
     (\<forall>salt p q. check_password_hash W (generate_password_hash W salt p) q = (p = q))"

text \<open>What a handler sends back: the messages it flashed and its response.\<close>

datatype response =
    Redirect string
  | RenderTemplate string
  | RenderQuiz "quiz list" "int option"
  | Body string
  | BadRequest

record reply =
  flashes :: "string list"
  response :: response

datatype http_method = GET | POST

type_synonym form = "string \<rightharpoonup> string"

section \<open>Python's \<^verbatim>\<open>str\<close> of an integer\<close>

fun str_nat :: "nat \<Rightarrow> string" where
  "str_nat n =
     (if n < 10 then [''0123456789'' ! n]
      else str_nat (n div 10) @ [''0123456789'' ! (n mod 10)])"

declare str_nat.simps [simp del]

definition str_int :: "int \<Rightarrow> string" where
  "str_int i = (if i < 0 then ''-'' @ str_nat (nat (- i)) else str_nat (nat i))"

section \<open>The persistence layer\<close>

text \<open>
  An \<^verbatim>\<open>INTEGER PRIMARY KEY\<close> column left unset takes the rowid SQLite picks: 1 in an
  empty table, otherwise one more than the largest rowid in the table.
\<close>

definition next_id :: "int list \<Rightarrow> int" where
  "next_id ids = (if ids = [] then 1 else Max (set ids) + 1)"

definition insert_user :: "user \<Rightarrow> user list \<Rightarrow> user list" where
  "insert_user u tbl = tbl @ [u\<lparr>user_id := next_id (map user_id tbl)\<rparr>]"

definition insert_quiz :: "quiz \<Rightarrow> quiz list \<Rightarrow> quiz list" where
  "insert_quiz q tbl = tbl @ [q\<lparr>quiz_id := next_id (map quiz_id tbl)\<rparr>]"

text \<open>
  \<^verbatim>\<open>db.session.add(new_user); db.session.commit()\<close>. The commit is one transaction: it
  raises and writes nothing, or it writes the row. It raises when the persistence layer
  fails (\<open>fault\<close>, an input of the environment) and when the \<^verbatim>\<open>unique=True\<close> constraint
  on \<^verbatim>\<open>username\<close> is violated. \<open>None\<close> is the exception.
\<close>

definition commit_user :: "bool \<Rightarrow> user \<Rightarrow> store \<Rightarrow> store option" where
  "commit_user fault u db =
     (if fault \<or> username u \<in> set (map username (users db)) then None
      else Some (db\<lparr>users := insert_user u (users db)\<rparr>))"

text \<open>
  \<^verbatim>\<open>db.session.add_all(sample_questions); db.session.commit()\<close>: the rows are inserted in
  the order of the list, in one transaction.
\<close>

definition commit_quizzes :: "bool \<Rightarrow> quiz list \<Rightarrow> store \<Rightarrow> store option" where
  "commit_quizzes fault qs db =
     (if fault then None else Some (db\<lparr>quizzes := fold insert_quiz qs (quizzes db)\<rparr>))"

section \<open>The \<^verbatim>\<open>User\<close> model\<close>

text \<open>
  \<^verbatim>\<open>User(username=username)\<close>: the primary key and the password are unset until
  \<^verbatim>\<open>set_password\<close> and the insert fill them; 0 and the empty string stand for unset.
\<close>

definition User :: "string \<Rightarrow> user" where
  "User uname = \<lparr>user_id = 0, username = uname, password = []\<rparr>"

definition set_password :: "werkzeug \<Rightarrow> string \<Rightarrow> user \<Rightarrow> string \<Rightarrow> user" where
  "set_password W salt self pw = self\<lparr>password := generate_password_hash W salt pw\<rparr>"

definition check_password :: "werkzeug \<Rightarrow> user \<Rightarrow> string \<Rightarrow> bool" where
  "check_password W self pw = check_password_hash W (password self) pw"

text \<open>\<^verbatim>\<open>User.query.filter_by(username=username).first()\<close>\<close>

definition first_by_username :: "string \<Rightarrow> store \<Rightarrow> user option" where
  "first_by_username uname db = find (\<lambda>u. username u = uname) (users db)"

section \<open>Registration\<close>

definition username_exists :: reply where
  "username_exists =
     \<lparr>flashes = [''Username already exists. Try a different one.''],
      response = Redirect ''register''\<rparr>"

definition registration_successful :: reply where
  "registration_successful =
     \<lparr>flashes = [''Registration successful! You can now log in.''],
      response = Redirect ''login''\<rparr>"

definition registration_error :: reply where
  "registration_error =
     \<lparr>flashes = [''An error occurred during registration. Please try again.''],
      response = Redirect ''register''\<rparr>"

text \<open>The body of the \<^verbatim>\<open>POST\<close> branch of \<^verbatim>\<open>register\<close>, from the two form fields on.\<close>

definition register_post ::
  "werkzeug \<Rightarrow> string \<Rightarrow> bool \<Rightarrow> string \<Rightarrow> string \<Rightarrow> store \<Rightarrow> reply \<times> store" where
  "register_post W salt fault uname pw db =
     (case first_by_username uname db of
        Some existing_user \<Rightarrow> (username_exists, db)
      | None \<Rightarrow>
          (let new_user = set_password W salt (User uname) pw in
           case commit_user fault new_user db of
             Some db' \<Rightarrow> (registration_successful, db')
           | None \<Rightarrow> (registration_error, db)))"

text \<open>
  The route. \<^verbatim>\<open>request.form["username"]\<close> on a form without the field raises
  \<^verbatim>\<open>BadRequestKeyError\<close>, which Flask answers with status 400.
\<close>

definition register ::
  "werkzeug \<Rightarrow> string \<Rightarrow> bool \<Rightarrow> http_method \<Rightarrow> form \<Rightarrow> store \<Rightarrow> reply \<times> store" where
  "register W salt fault meth frm db =
     (if meth = POST then
        (case frm ''username'' of
           None \<Rightarrow> (\<lparr>flashes = [], response = BadRequest\<rparr>, db)
         | Some uname \<Rightarrow>
             (case frm ''password'' of
                None \<Rightarrow> (\<lparr>flashes = [], response = BadRequest\<rparr>, db)
              | Some pw \<Rightarrow> register_post W salt fault uname pw db))
      else (\<lparr>flashes = [], response = RenderTemplate ''register.html''\<rparr>, db))"

section \<open>Login\<close>

text \<open>
  The session of a client is the id of the user logged in, if any. \<^verbatim>\<open>login_user(user)\<close>
  stores the user's id in it.
\<close>

type_synonym session = "int option"

definition login_failed :: reply where
  "login_failed =
     \<lparr>flashes = [''Login failed. Check your username and password.''],
      response = Redirect ''login''\<rparr>"

definition login_succeeded :: reply where
  "login_succeeded = \<lparr>flashes = [], response = Redirect ''home''\<rparr>"

definition login_post ::
  "werkzeug \<Rightarrow> string \<Rightarrow> string \<Rightarrow> store \<Rightarrow> session \<Rightarrow> reply \<times> session" where
  "login_post W uname pw db sess =
     (case first_by_username uname db of
        None \<Rightarrow> (login_failed, sess)
      | Some u \<Rightarrow>
          (if check_password W u pw then (login_succeeded, Some (user_id u))
           else (login_failed, sess)))"

definition login ::
  "werkzeug \<Rightarrow> http_method \<Rightarrow> form \<Rightarrow> store \<Rightarrow> session \<Rightarrow> reply \<times> session" where
  "login W meth frm db sess =
     (if meth = POST then
        (case frm ''username'' of
           None \<Rightarrow> (\<lparr>flashes = [], response = BadRequest\<rparr>, sess)
         | Some uname \<Rightarrow>
             (case frm ''password'' of
                None \<Rightarrow> (\<lparr>flashes = [], response = BadRequest\<rparr>, sess)
              | Some pw \<Rightarrow> login_post W uname pw db sess))
      else (\<lparr>flashes = [], response = RenderTemplate ''login.html''\<rparr>, sess))"

section \<open>The quiz catalog\<close>

definition sample_questions :: "quiz list" where
  "sample_questions =
     [\<lparr>quiz_id = 0, question = ''What is the capital of France?'',
       option_a = ''Berlin'', option_b = ''Madrid'', option_c = ''Paris'',
       option_d = ''Rome'', correct_answer = ''C''\<rparr>,
      \<lparr>quiz_id = 0, question = ''What is 2 + 2?'',
       option_a = ''3'', option_b = ''4'', option_c = ''5'',
       option_d = ''6'', correct_answer = ''B''\<rparr>,
      \<lparr>quiz_id = 0, question = ''Which planet is known as the Red Planet?'',
       option_a = ''Earth'', option_b = ''Mars'', option_c = ''Jupiter'',
       option_d = ''Venus'', correct_answer = ''B''\<rparr>]"

text \<open>
  \<^verbatim>\<open>add_sample_questions\<close>: the whole body is inside \<^verbatim>\<open>try\<close>, and the handler answers
  with a plain string. \<^verbatim>\<open>Quiz.query.count()\<close> is the number of rows.
\<close>

definition add_sample_questions :: "bool \<Rightarrow> store \<Rightarrow> reply \<times> store" where
  "add_sample_questions fault db =
     (if int (length (quizzes db)) = 0 then
        (case commit_quizzes fault sample_questions db of
           Some db' \<Rightarrow> (\<lparr>flashes = [], response = Body ''Sample questions added!''\<rparr>, db')
         | None \<Rightarrow>
             (\<lparr>flashes = [],
               response = Body ''An error occurred while adding sample questions.''\<rparr>, db))
      else
        (\<lparr>flashes = [],
          response = Body ''Sample questions already exist in the database.''\<rparr>, db))"

text \<open>
  \<^verbatim>\<open>Quiz.query.all()\<close>: every row, as the table yields them. The query has no
  \<^verbatim>\<open>order_by\<close>.
\<close>

definition query_all :: "store \<Rightarrow> quiz list" where
  "query_all db = quizzes db"

section \<open>Scoring\<close>

text \<open>The form field of a question: \<^verbatim>\<open>f"question_{question.id}"\<close>.\<close>

definition field_name :: "quiz \<Rightarrow> string" where
  "field_name q = ''question_'' @ str_int (quiz_id q)"

text \<open>
  The \<^verbatim>\<open>for\<close> loop of \<^verbatim>\<open>quiz\<close>, with the running score as accumulator.
  \<^verbatim>\<open>request.form.get\<close> gives \<^verbatim>\<open>None\<close> for a field that was not submitted, and
  \<^verbatim>\<open>None == question.correct_answer\<close> is false.
\<close>

fun score_loop :: "form \<Rightarrow> quiz list \<Rightarrow> int \<Rightarrow> int" where
  "score_loop frm [] score = score"
| "score_loop frm (q # questions) score =
     (let user_answer = frm (field_name q) in
      score_loop frm questions
        (if user_answer = Some (correct_answer q) then score + 1 else score))"

text \<open>
  The body of \<^verbatim>\<open>quiz\<close>, which \<^verbatim>\<open>login_required\<close> runs for a logged-in client only.
\<close>

definition quiz :: "http_method \<Rightarrow> form \<Rightarrow> store \<Rightarrow> reply" where
  "quiz meth frm db =
     (let questions = query_all db in
      if meth = POST then
        (let score = score_loop frm questions 0 in
         \<lparr>flashes =
            [''Your score is '' @ str_int score @ '' out of ''
               @ str_int (int (length questions))],
          response = RenderQuiz questions (Some score)\<rparr>)
      else \<lparr>flashes = [], response = RenderQuiz questions None\<rparr>)"

section \<open>Histories of writes\<close>

text \<open>
  Only two handlers write to the store: a registration \<^verbatim>\<open>POST\<close> with both fields, and
  \<^verbatim>\<open>add_sample_questions\<close>. A history is the list of these requests in the order served,
  each with what the environment contributed (the salt drawn, whether the commit fails).
\<close>

datatype request =
    Register string bool string string
  | AddSampleQuestions bool

definition credentials_form :: "string \<Rightarrow> string \<Rightarrow> form" where
  "credentials_form uname pw = [''username'' \<mapsto> uname, ''password'' \<mapsto> pw]"

fun serve :: "werkzeug \<Rightarrow> request \<Rightarrow> store \<Rightarrow> reply \<times> store" where
  "serve W (Register salt fault uname pw) db =
     register W salt fault POST (credentials_form uname pw) db"
| "serve W (AddSampleQuestions fault) db = add_sample_questions fault db"

fun run :: "werkzeug \<Rightarrow> request list \<Rightarrow> store \<Rightarrow> store" where
  "run W [] db = db"
| "run W (r # rs) db = run W rs (snd (serve W r db))"

text \<open>The credentials of the registrations of a history that succeeded.\<close>

fun credentials_of :: "request \<Rightarrow> (string \<times> string) list" where
  "credentials_of (Register salt fault uname pw) = [(uname, pw)]"
| "credentials_of (AddSampleQuestions fault) = []"

fun registered :: "werkzeug \<Rightarrow> request list \<Rightarrow> store \<Rightarrow> (string \<times> string) list" where
  "registered W [] db = []"
| "registered W (r # rs) db =
     (if fst (serve W r db) = registration_successful then credentials_of r else [])
       @ registered W rs (snd (serve W r db))"

text \<open>
  An instance of the two library parameters that keeps the contract \<open>sound_hashing\<close>,
  for running the handlers on concrete inputs. It is not a model of the library.
\<close>

definition plain_hashing :: werkzeug where
  "plain_hashing =
     \<lparr>generate_password_hash = (\<lambda>salt pw. pw), check_password_hash = (\<lambda>h pw. h = pw)\<rparr>"

text \<open>
  The invariant that ties a store to the credentials registered so far: a username has a
  row exactly when it was registered, and the hash of the row verifies exactly against
  the one password it was registered with.
\<close>

definition agrees :: "werkzeug \<Rightarrow> store \<Rightarrow> (string \<times> string) list \<Rightarrow> bool" where
  "agrees W db R =
     (\<forall>u. case first_by_username u db of
            None \<Rightarrow> (\<forall>p. (u, p) \<notin> set R)
          | Some row \<Rightarrow>
              (\<exists>p. (\<forall>q. check_password W row q = (q = p)) \<and> (\<forall>q. ((u, q) \<in> set R) = (q = p))))"

section \<open>The hashing pair\<close>






section \<open>Scoring: the count of exact matches\<close>

lemma score_loop_acc:
  "score_loop frm qs acc =
     acc + int (length (filter (\<lambda>q. frm (field_name q) = Some (correct_answer q)) qs))"
  by (induction qs arbitrary: acc) simp_all

text \<open>
  C1. The score of a submission is the number of questions whose submitted label equals
  the question's \<open>correct_answer\<close> exactly; it lies between 0 and the number of questions;
  a question whose field was not submitted adds nothing; and this is the score the
  \<^verbatim>\<open>POST\<close> branch of \<^verbatim>\<open>quiz\<close> renders.
\<close>

theorem score_counts_exact_matches:
  "score_loop frm qs 0 =
     int (length (filter (\<lambda>q. frm (field_name q) = Some (correct_answer q)) qs))
   \<and> 0 \<le> score_loop frm qs 0
   \<and> score_loop frm qs 0 \<le> int (length qs)
   \<and> score_loop (frm(field_name q := None)) (q # qs) 0
       = score_loop (frm(field_name q := None)) qs 0
   \<and> response (quiz POST frm db) =
       RenderQuiz (quizzes db)
         (Some (int (length (filter (\<lambda>q. frm (field_name q) = Some (correct_answer q))
                                (quizzes db)))))"
  by (simp add: score_loop_acc quiz_def query_all_def Let_def)

section \<open>The password methods\<close>






section \<open>Registration\<close>

lemma first_by_username_None:
  "(first_by_username uname db = None) = (uname \<notin> username ` set (users db))"
  by (auto simp: first_by_username_def find_None_iff)

lemma first_by_username_Some:
  "first_by_username uname db = Some row \<Longrightarrow> row \<in> set (users db) \<and> username row = uname"
  by (auto simp: first_by_username_def find_Some_iff)

lemma register_credentials_form:
  "register W salt fault POST (credentials_form uname pw) db =
     register_post W salt fault uname pw db"
  by (simp add: register_def credentials_form_def)

lemma login_credentials_form:
  "login W POST (credentials_form uname pw) db sess = login_post W uname pw db sess"
  by (simp add: login_def credentials_form_def)

lemma register_post_existing:
  "uname \<in> username ` set (users db) \<Longrightarrow>
     register_post W salt fault uname pw db = (username_exists, db)"
  using first_by_username_None [of uname db]
  by (auto simp: register_post_def split: option.splits)

lemma register_post_fresh:
  "uname \<notin> username ` set (users db) \<Longrightarrow>
     register_post W salt fault uname pw db =
       (if fault then (registration_error, db)
        else (registration_successful,
              db\<lparr>users := users db @
                 [\<lparr>user_id = next_id (map user_id (users db)), username = uname,
                   password = generate_password_hash W salt pw\<rparr>]\<rparr>))"
  using first_by_username_None [of uname db]
  by (simp add: register_post_def commit_user_def insert_user_def set_password_def
      User_def Let_def)

lemma replies_differ:
  "registration_successful \<noteq> username_exists"
  "registration_successful \<noteq> registration_error"
  "login_succeeded \<noteq> login_failed"
  by (simp_all add: registration_successful_def username_exists_def
      registration_error_def login_succeeded_def login_failed_def)

lemma register_post_successful:
  "(fst (register_post W salt fault uname pw db) = registration_successful) =
     (uname \<notin> username ` set (users db) \<and> \<not> fault)"
proof (cases "uname \<in> username ` set (users db)")
  case True
  then show ?thesis
    using replies_differ by (simp add: register_post_existing)
next
  case False
  then show ?thesis
    using replies_differ by (auto simp: register_post_fresh)
qed

text \<open>
  C4. When a row with the username exists, a registration \<^verbatim>\<open>POST\<close> flashes
  "Username already exists" (the duplicate-username failure), redirects to the form and
  leaves the store as it was, whatever the password; so a second registration of a
  username whose first registration succeeded fails in this way.
\<close>

theorem register_duplicate_username:
  "(uname \<in> username ` set (users db) \<longrightarrow>
      register W salt fault POST (credentials_form uname pw) db = (username_exists, db))
   \<and> (fst (register W salt1 fault1 POST (credentials_form uname pw1) db)
          = registration_successful \<longrightarrow>
        register W salt2 fault2 POST (credentials_form uname pw2)
            (snd (register W salt1 fault1 POST (credentials_form uname pw1) db))
          = (username_exists, snd (register W salt1 fault1 POST (credentials_form uname pw1) db)))"
proof (intro conjI impI)
  assume "uname \<in> username ` set (users db)"
  then show "register W salt fault POST (credentials_form uname pw) db = (username_exists, db)"
    by (simp add: register_credentials_form register_post_existing)
next
  let ?db1 = "snd (register W salt1 fault1 POST (credentials_form uname pw1) db)"
  assume "fst (register W salt1 fault1 POST (credentials_form uname pw1) db)
            = registration_successful"
  then have ok: "uname \<notin> username ` set (users db) \<and> \<not> fault1"
    by (simp add: register_credentials_form register_post_successful)
  then have "uname \<in> username ` set (users ?db1)"
    by (simp add: register_credentials_form register_post_fresh)
  then show "register W salt2 fault2 POST (credentials_form uname pw2) ?db1
               = (username_exists, ?db1)"
    by (simp only: register_credentials_form register_post_existing)
qed

theorem register_duplicate_username_witness:
  "''ann'' \<in> username ` set (users (run plain_hashing [Register ''s'' False ''ann'' ''pw''] empty_store))
   \<and> register plain_hashing ''t'' False POST (credentials_form ''ann'' ''other'')
        (run plain_hashing [Register ''s'' False ''ann'' ''pw''] empty_store)
      = (username_exists, run plain_hashing [Register ''s'' False ''ann'' ''pw''] empty_store)
   \<and> fst (register plain_hashing ''s'' False POST (credentials_form ''ann'' ''pw'') empty_store)
      = registration_successful
   \<and> fst (register plain_hashing ''t'' False POST (credentials_form ''ann'' ''other'')
        (snd (register plain_hashing ''s'' False POST (credentials_form ''ann'' ''pw'')
           empty_store)))
      = username_exists"
proof -
  let ?db1 = "run plain_hashing [Register ''s'' False ''ann'' ''pw''] empty_store"
  have in1: "''ann'' \<in> username ` set (users ?db1)"
    by (simp add: register_credentials_form register_post_fresh empty_store_def)
  have ok: "fst (register plain_hashing ''s'' False POST (credentials_form ''ann'' ''pw'')
              empty_store) = registration_successful"
    by (simp add: register_credentials_form register_post_fresh empty_store_def)
  from in1 ok
    register_duplicate_username [of "''ann''" ?db1 plain_hashing "''t''" False "''other''"
      "''s''" False "''pw''" "''t''" False "''other''"]
    register_duplicate_username [of "''ann''" empty_store plain_hashing "''t''" False "''other''"
      "''s''" False "''pw''" "''t''" False "''other''"]
  show ?thesis by simp
qed

text \<open>
  C9. A registration that succeeds appends exactly one row to the users table: the new
  username with a fresh id and the hash of the password. The rows that were there stay
  as they were, in place, and the quiz table is untouched.
\<close>

theorem register_success_adds_one_row:
  "fst (register W salt fault POST (credentials_form uname pw) db) = registration_successful
   \<Longrightarrow> snd (register W salt fault POST (credentials_form uname pw) db) =
        db\<lparr>users := users db @
           [\<lparr>user_id = next_id (map user_id (users db)), username = uname,
             password = generate_password_hash W salt pw\<rparr>]\<rparr>"
  by (simp add: register_credentials_form register_post_successful register_post_fresh)

theorem register_success_adds_one_row_witness:
  "fst (register plain_hashing ''s'' False POST (credentials_form ''ann'' ''pw'') empty_store)
     = registration_successful
   \<and> snd (register plain_hashing ''s'' False POST (credentials_form ''ann'' ''pw'') empty_store)
     = \<lparr>users = [\<lparr>user_id = 1, username = ''ann'', password = ''pw''\<rparr>], quizzes = []\<rparr>"
proof -
  have ok: "fst (register plain_hashing ''s'' False POST (credentials_form ''ann'' ''pw'')
              empty_store) = registration_successful"
    by (simp add: register_credentials_form register_post_fresh empty_store_def)
  from register_success_adds_one_row [OF ok] ok
  show ?thesis by (simp add: empty_store_def next_id_def plain_hashing_def)
qed

section \<open>Seeding the catalog\<close>


lemma seeded_questions:
  "fold insert_quiz sample_questions [] =
     map (\<lambda>(i, q). q\<lparr>quiz_id := i\<rparr>) (zip [1, 2, 3] sample_questions)"
  by (simp add: sample_questions_def insert_quiz_def next_id_def)

lemma add_sample_questions_empty:
  "quizzes db = [] \<Longrightarrow>
     add_sample_questions fault db =
       (if fault then
          (\<lparr>flashes = [],
            response = Body ''An error occurred while adding sample questions.''\<rparr>, db)
        else
          (\<lparr>flashes = [], response = Body ''Sample questions added!''\<rparr>,
           db\<lparr>quizzes := fold insert_quiz sample_questions []\<rparr>))"
  by (simp add: add_sample_questions_def commit_quizzes_def)

lemma add_sample_questions_nonempty:
  "quizzes db \<noteq> [] \<Longrightarrow>
     add_sample_questions fault db =
       (\<lparr>flashes = [],
         response = Body ''Sample questions already exist in the database.''\<rparr>, db)"
  by (simp add: add_sample_questions_def)

lemma seeded_nonempty: "fold insert_quiz sample_questions [] \<noteq> []"
  by (simp only: seeded_questions) (simp add: sample_questions_def)

lemma seeded_length: "length (fold insert_quiz sample_questions []) = 3"
  by (simp only: seeded_questions) (simp add: sample_questions_def)

text \<open>
  C5. \<^verbatim>\<open>add_sample_questions\<close> on a catalog that has rows answers "already exist" and
  changes nothing. On an empty catalog, when the write goes through, it inserts the
  three sample questions with ids 1, 2, 3. Two calls from an empty catalog, of which at
  least one write goes through, leave exactly these three rows; after a first call that
  wrote, the second changes nothing.
\<close>

theorem seed_only_if_empty:
  "(quizzes db \<noteq> [] \<longrightarrow>
      add_sample_questions fault db =
        (\<lparr>flashes = [],
          response = Body ''Sample questions already exist in the database.''\<rparr>, db))
   \<and> (quizzes db = [] \<longrightarrow>
        snd (add_sample_questions False db) =
          db\<lparr>quizzes := map (\<lambda>(i, q). q\<lparr>quiz_id := i\<rparr>) (zip [1, 2, 3] sample_questions)\<rparr>)
   \<and> (quizzes db = [] \<and> \<not> (fault1 \<and> fault2) \<longrightarrow>
        quizzes (snd (add_sample_questions fault2 (snd (add_sample_questions fault1 db)))) =
          map (\<lambda>(i, q). q\<lparr>quiz_id := i\<rparr>) (zip [1, 2, 3] sample_questions)
        \<and> length (quizzes
             (snd (add_sample_questions fault2 (snd (add_sample_questions fault1 db))))) = 3)
   \<and> (quizzes db = [] \<longrightarrow>
        snd (add_sample_questions fault2 (snd (add_sample_questions False db))) =
          snd (add_sample_questions False db))"
proof (intro conjI impI)
  assume "quizzes db \<noteq> []"
  then show "add_sample_questions fault db =
        (\<lparr>flashes = [],
          response = Body ''Sample questions already exist in the database.''\<rparr>, db)"
    by (rule add_sample_questions_nonempty)
next
  assume "quizzes db = []"
  then show "snd (add_sample_questions False db) =
          db\<lparr>quizzes := map (\<lambda>(i, q). q\<lparr>quiz_id := i\<rparr>) (zip [1, 2, 3] sample_questions)\<rparr>"
    by (simp only: add_sample_questions_empty seeded_questions if_False snd_conv)
next
  assume e: "quizzes db = []"
  have "quizzes (snd (add_sample_questions False db)) \<noteq> []"
    using e seeded_nonempty by (simp add: add_sample_questions_empty)
  then show "snd (add_sample_questions fault2 (snd (add_sample_questions False db))) =
          snd (add_sample_questions False db)"
    by (simp add: add_sample_questions_nonempty)
next
  assume a: "quizzes db = [] \<and> \<not> (fault1 \<and> fault2)"
  let ?db2 = "snd (add_sample_questions fault2 (snd (add_sample_questions fault1 db)))"
  have q: "quizzes ?db2 = fold insert_quiz sample_questions []"
  proof (cases fault1)
    case True
    with a have "\<not> fault2" by simp
    with a True show ?thesis
      by (simp add: add_sample_questions_empty)
  next
    case False
    with a have "quizzes (snd (add_sample_questions fault1 db)) =
        fold insert_quiz sample_questions []"
      by (simp add: add_sample_questions_empty)
    then show ?thesis
      using seeded_nonempty by (simp add: add_sample_questions_nonempty)
  qed
  show "quizzes ?db2 = map (\<lambda>(i, q). q\<lparr>quiz_id := i\<rparr>) (zip [1, 2, 3] sample_questions)"
    using q by (simp only: seeded_questions)
  show "length (quizzes ?db2) = 3"
    using q by (simp only: seeded_length)
qed

theorem seed_only_if_empty_witness:
  "quizzes (snd (add_sample_questions False empty_store)) \<noteq> []
   \<and> add_sample_questions False (snd (add_sample_questions False empty_store)) =
       (\<lparr>flashes = [],
         response = Body ''Sample questions already exist in the database.''\<rparr>,
        snd (add_sample_questions False empty_store))
   \<and> quizzes empty_store = []
   \<and> map quiz_id (quizzes (snd (add_sample_questions False empty_store))) = [1, 2, 3]
   \<and> length (quizzes
        (snd (add_sample_questions False (snd (add_sample_questions True empty_store))))) = 3"
proof -
  let ?db1 = "snd (add_sample_questions False empty_store)"
  have e: "quizzes empty_store = []"
    by (simp add: empty_store_def)
  have n: "quizzes ?db1 \<noteq> []"
    using seeded_nonempty by (simp add: add_sample_questions_empty e)
  from e n
    seed_only_if_empty [of ?db1 False False False]
    seed_only_if_empty [of empty_store False True False]
  show ?thesis
    by (simp add: sample_questions_def)
qed

text \<open>
  C7. When the commit of a registration or of the seeding fails, the handler catches
  the exception and answers with its generic message ("An error occurred ... Please try
  again." flashed with a redirect to the form, or the plain error text), and the store
  after the request is the store before it.
\<close>

theorem failed_write_leaves_store:
  "snd (register W salt True meth frm db) = db
   \<and> snd (add_sample_questions True db) = db
   \<and> (uname \<notin> username ` set (users db) \<longrightarrow>
        register W salt True POST (credentials_form uname pw) db = (registration_error, db))
   \<and> (quizzes db = [] \<longrightarrow>
        add_sample_questions True db =
          (\<lparr>flashes = [],
            response = Body ''An error occurred while adding sample questions.''\<rparr>, db))"
proof (intro conjI impI)
  show "snd (register W salt True meth frm db) = db"
    by (simp add: register_def register_post_def commit_user_def split: option.splits)
  show "snd (add_sample_questions True db) = db"
    by (simp add: add_sample_questions_def commit_quizzes_def)
next
  assume "uname \<notin> username ` set (users db)"
  then show "register W salt True POST (credentials_form uname pw) db = (registration_error, db)"
    by (simp add: register_credentials_form register_post_fresh)
next
  assume "quizzes db = []"
  then show "add_sample_questions True db =
          (\<lparr>flashes = [],
            response = Body ''An error occurred while adding sample questions.''\<rparr>, db)"
    by (simp add: add_sample_questions_empty)
qed

theorem failed_write_leaves_store_witness:
  "''ann'' \<notin> username ` set (users empty_store)
   \<and> register plain_hashing ''s'' True POST (credentials_form ''ann'' ''pw'') empty_store =
       (\<lparr>flashes = [''An error occurred during registration. Please try again.''],
         response = Redirect ''register''\<rparr>, empty_store)
   \<and> quizzes empty_store = []
   \<and> add_sample_questions True empty_store =
       (\<lparr>flashes = [],
         response = Body ''An error occurred while adding sample questions.''\<rparr>, empty_store)"
proof -
  have u: "''ann'' \<notin> username ` set (users empty_store)"
    by (simp add: empty_store_def)
  have e: "quizzes empty_store = []"
    by (simp add: empty_store_def)
  from u e
    failed_write_leaves_store [of plain_hashing "''s''" POST "credentials_form ''ann'' ''pw''"
      empty_store "''ann''" "''pw''"]
  show ?thesis
    by (simp add: registration_error_def)
qed

section \<open>The sample scenario\<close>

lemma str_int_small:
  "str_int 0 = ''0''" "str_int 1 = ''1''" "str_int 2 = ''2''" "str_int 3 = ''3''"
  by (simp_all add: str_int_def str_nat.simps)

lemma seeded_store:
  "snd (add_sample_questions False empty_store) =
     \<lparr>users = [],
      quizzes = map (\<lambda>(i, q). q\<lparr>quiz_id := i\<rparr>) (zip [1, 2, 3] sample_questions)\<rparr>"
  by (simp only: add_sample_questions_empty seeded_questions empty_store_def
      store.simps if_False snd_conv)

text \<open>
  C8. On the catalog seeded from the empty store, whose three questions have ids 1, 2, 3
  and correct answers C, B, B, the submission \<open>{1: C, 2: B, 3: B}\<close> scores 3 and the
  submission \<open>{1: A, 2: A, 3: A}\<close> scores 0.
\<close>

theorem sample_scenario_scores:
  "map (\<lambda>q. (quiz_id q, question q, correct_answer q))
       (query_all (snd (add_sample_questions False empty_store))) =
     [(1, ''What is the capital of France?'', ''C''),
      (2, ''What is 2 + 2?'', ''B''),
      (3, ''Which planet is known as the Red Planet?'', ''B'')]
   \<and> score_loop [''question_1'' \<mapsto> ''C'', ''question_2'' \<mapsto> ''B'', ''question_3'' \<mapsto> ''B'']
        (query_all (snd (add_sample_questions False empty_store))) 0 = 3
   \<and> score_loop [''question_1'' \<mapsto> ''A'', ''question_2'' \<mapsto> ''A'', ''question_3'' \<mapsto> ''A'']
        (query_all (snd (add_sample_questions False empty_store))) 0 = 0
   \<and> flashes (quiz POST
        [''question_1'' \<mapsto> ''C'', ''question_2'' \<mapsto> ''B'', ''question_3'' \<mapsto> ''B'']
        (snd (add_sample_questions False empty_store))) = [''Your score is 3 out of 3'']
   \<and> flashes (quiz POST
        [''question_1'' \<mapsto> ''A'', ''question_2'' \<mapsto> ''A'', ''question_3'' \<mapsto> ''A'']
        (snd (add_sample_questions False empty_store))) = [''Your score is 0 out of 3'']"
  by (simp add: seeded_store query_all_def sample_questions_def quiz_def field_name_def
      str_int_small Let_def)

section \<open>Fields that belong to no question\<close>

text \<open>
  C10. The score reads the form only at the fields of the questions scored: restricting
  the form to these fields changes neither the score nor the reply of \<^verbatim>\<open>quiz\<close>.
\<close>

theorem score_ignores_other_fields:
  "score_loop frm qs 0 = score_loop (frm |` (field_name ` set qs)) qs 0
   \<and> quiz meth frm db = quiz meth (frm |` (field_name ` set (query_all db))) db"
proof -
  have eq: "score_loop frm qs 0 = score_loop (frm |` (field_name ` set qs)) qs 0" for qs
  proof -
    have "filter (\<lambda>q. frm (field_name q) = Some (correct_answer q)) qs =
          filter (\<lambda>q. (frm |` (field_name ` set qs)) (field_name q) = Some (correct_answer q)) qs"
      by (rule filter_cong) simp_all
    then show ?thesis
      by (simp only: score_loop_acc)
  qed
  show ?thesis
    using eq [of qs] eq [of "query_all db"] by (simp add: quiz_def Let_def)
qed

section \<open>The order of the catalog\<close>












section \<open>Login\<close>

lemma find_snoc:
  "find P (xs @ [y]) = (case find P xs of None \<Rightarrow> if P y then Some y else None | Some x \<Rightarrow> Some x)"
  by (induction xs) simp_all

lemma first_by_username_append:
  "first_by_username u (db\<lparr>users := users db @ [row]\<rparr>) =
     (case first_by_username u db of
        None \<Rightarrow> if username row = u then Some row else None
      | Some x \<Rightarrow> Some x)"
  by (simp add: first_by_username_def find_snoc)

lemma agrees_at:
  "agrees W db R \<Longrightarrow>
     (case first_by_username u db of
        None \<Rightarrow> \<forall>p. (u, p) \<notin> set R
      | Some row \<Rightarrow>
          \<exists>p. (\<forall>q. check_password W row q = (q = p)) \<and> (\<forall>q. ((u, q) \<in> set R) = (q = p)))"
  by (simp add: agrees_def)

lemma agrees_empty: "agrees W empty_store []"
  by (simp add: agrees_def first_by_username_def empty_store_def)

lemma agrees_same_users:
  "users db' = users db \<Longrightarrow> agrees W db' R = agrees W db R"
  by (simp add: agrees_def first_by_username_def)

lemma agrees_new_row:
  assumes sound: "sound_hashing W"
    and inv: "agrees W db R"
    and fresh: "uname \<notin> username ` set (users db)"
  shows "agrees W
           (db\<lparr>users := users db @
              [\<lparr>user_id = i, username = uname, password = generate_password_hash W salt pw\<rparr>]\<rparr>)
           (R @ [(uname, pw)])"
proof -
  let ?row = "\<lparr>user_id = i, username = uname, password = generate_password_hash W salt pw\<rparr>"
  have none: "first_by_username uname db = None"
    using fresh by (simp add: first_by_username_None)
  have unreg: "(uname, p) \<notin> set R" for p
    using agrees_at [OF inv, of uname] none by simp
  have chk: "check_password W ?row q = (q = pw)" for q
    using sound by (auto simp: check_password_def sound_hashing_def)
  show ?thesis
    unfolding agrees_def
  proof
    fix u
    show "case first_by_username u (db\<lparr>users := users db @ [?row]\<rparr>) of
            None \<Rightarrow> \<forall>p. (u, p) \<notin> set (R @ [(uname, pw)])
          | Some row \<Rightarrow>
              \<exists>p. (\<forall>q. check_password W row q = (q = p)) \<and>
                  (\<forall>q. ((u, q) \<in> set (R @ [(uname, pw)])) = (q = p))"
    proof (cases "u = uname")
      case True
      then show ?thesis
        using none unreg chk by (auto simp: first_by_username_append)
    next
      case False
      with agrees_at [OF inv, of u] show ?thesis
        by (auto simp: first_by_username_append split: option.splits)
    qed
  qed
qed

lemma add_sample_questions_reply:
  "fst (add_sample_questions fault db) \<noteq> registration_successful"
  by (simp add: add_sample_questions_def registration_successful_def split: option.splits)

lemma add_sample_questions_users: "users (snd (add_sample_questions fault db)) = users db"
  by (simp add: add_sample_questions_def commit_quizzes_def)

lemma agrees_serve:
  assumes sound: "sound_hashing W" and inv: "agrees W db R"
  shows "agrees W (snd (serve W r db))
           (R @ (if fst (serve W r db) = registration_successful then credentials_of r else []))"
proof (cases r)
  case (AddSampleQuestions fault)
  then show ?thesis
    using inv add_sample_questions_reply [of fault db]
      agrees_same_users [OF add_sample_questions_users, of W fault db R]
    by simp
next
  case (Register salt fault uname pw)
  show ?thesis
  proof (cases "uname \<in> username ` set (users db) \<or> fault")
    case True
    then have "\<not> (uname \<notin> username ` set (users db) \<and> \<not> fault)"
      by simp
    then have no: "fst (register_post W salt fault uname pw db) \<noteq> registration_successful"
      by (simp only: register_post_successful not_False_eq_True)
    have "snd (register_post W salt fault uname pw db) = db"
      using True by (cases "uname \<in> username ` set (users db)")
        (simp_all add: register_post_existing register_post_fresh)
    with no inv Register show ?thesis
      by (simp add: register_credentials_form)
  next
    case False
    then have fresh: "uname \<notin> username ` set (users db)" and ok: "\<not> fault"
      by simp_all
    from agrees_new_row [OF sound inv fresh, of "next_id (map user_id (users db))" salt pw]
    show ?thesis
      using Register fresh ok
      by (simp add: register_credentials_form register_post_fresh)
  qed
qed

lemma agrees_run:
  "sound_hashing W \<Longrightarrow> agrees W db R \<Longrightarrow> agrees W (run W rs db) (R @ registered W rs db)"
proof (induction rs arbitrary: db R)
  case Nil
  then show ?case by simp
next
  case (Cons r rs)
  from Cons.IH [OF Cons.prems(1) agrees_serve [OF Cons.prems, of r]]
  show ?case by simp
qed

lemma login_post_agrees:
  assumes "agrees W db R"
  shows "(fst (login_post W uname pw db sess) = login_succeeded) = ((uname, pw) \<in> set R)"
proof (cases "first_by_username uname db")
  case None
  then show ?thesis
    using agrees_at [OF assms, of uname] replies_differ(3) by (simp add: login_post_def)
next
  case (Some row)
  with agrees_at [OF assms, of uname] obtain p where
    "\<forall>q. check_password W row q = (q = p)" and "\<forall>q. ((uname, q) \<in> set R) = (q = p)"
    by auto
  with Some show ?thesis
    using replies_differ(3) by (auto simp: login_post_def)
qed

text \<open>
  C2. A login \<^verbatim>\<open>POST\<close> fails with "Login failed" and leaves the session as it was, both
  when no row has the username and when the hash of the row does not verify against the
  password; when the hash verifies, it succeeds and the session holds the user's id.
  Given hashing that keeps its contract, in the store reached from the empty one by any
  history of requests, \<open>login(u, p)\<close> succeeds exactly when a registration of \<open>(u, p)\<close>
  in the history succeeded. (The application has no operation that changes a password.)
\<close>

theorem login_iff_registered:
  "(first_by_username uname db = None \<longrightarrow>
      login W POST (credentials_form uname pw) db sess = (login_failed, sess))
   \<and> (first_by_username uname db = Some row \<and> \<not> check_password_hash W (password row) pw \<longrightarrow>
        login W POST (credentials_form uname pw) db sess = (login_failed, sess))
   \<and> (first_by_username uname db = Some row \<and> check_password_hash W (password row) pw \<longrightarrow>
        login W POST (credentials_form uname pw) db sess = (login_succeeded, Some (user_id row)))
   \<and> (sound_hashing W \<longrightarrow>
        (fst (login W POST (credentials_form uname pw) (run W rs empty_store) sess)
           = login_succeeded)
        = ((uname, pw) \<in> set (registered W rs empty_store)))"
proof (intro conjI impI)
  assume "sound_hashing W"
  then have "agrees W (run W rs empty_store) ([] @ registered W rs empty_store)"
    using agrees_empty by (rule agrees_run)
  then show "(fst (login W POST (credentials_form uname pw) (run W rs empty_store) sess)
               = login_succeeded)
             = ((uname, pw) \<in> set (registered W rs empty_store))"
    by (simp add: login_credentials_form login_post_agrees)
qed (simp_all add: login_credentials_form login_post_def check_password_def)

lemma sound_plain_hashing: "sound_hashing plain_hashing"
  by (auto simp: sound_hashing_def plain_hashing_def)

lemma run_register_ann:
  "run plain_hashing [Register ''s'' False ''ann'' ''pw''] empty_store =
     \<lparr>users = [\<lparr>user_id = 1, username = ''ann'', password = ''pw''\<rparr>], quizzes = []\<rparr>"
  by (simp add: register_credentials_form register_post_fresh empty_store_def next_id_def
      plain_hashing_def)

theorem login_iff_registered_witness:
  "first_by_username ''bob'' empty_store = None
   \<and> login plain_hashing POST (credentials_form ''bob'' ''pw'') empty_store None
       = (login_failed, None)
   \<and> first_by_username ''ann''
        (run plain_hashing [Register ''s'' False ''ann'' ''pw''] empty_store)
       = Some \<lparr>user_id = 1, username = ''ann'', password = ''pw''\<rparr>
   \<and> \<not> check_password_hash plain_hashing ''pw'' ''bad''
   \<and> login plain_hashing POST (credentials_form ''ann'' ''bad'')
        (run plain_hashing [Register ''s'' False ''ann'' ''pw''] empty_store) None
       = (login_failed, None)
   \<and> check_password_hash plain_hashing ''pw'' ''pw''
   \<and> login plain_hashing POST (credentials_form ''ann'' ''pw'')
        (run plain_hashing [Register ''s'' False ''ann'' ''pw''] empty_store) None
       = (login_succeeded, Some 1)
   \<and> sound_hashing plain_hashing
   \<and> (''ann'', ''pw'') \<in> set (registered plain_hashing [Register ''s'' False ''ann'' ''pw'']
                               empty_store)
   \<and> (''ann'', ''bad'') \<notin> set (registered plain_hashing [Register ''s'' False ''ann'' ''pw'']
                                empty_store)"
proof -
  let ?W = plain_hashing
  let ?rs = "[Register ''s'' False ''ann'' ''pw'']"
  let ?row = "\<lparr>user_id = 1, username = ''ann'', password = ''pw''\<rparr>"
  have bob: "first_by_username ''bob'' empty_store = None"
    by (simp add: first_by_username_def empty_store_def)
  have ann: "first_by_username ''ann'' (run ?W ?rs empty_store) = Some ?row"
    by (simp only: run_register_ann) (simp add: first_by_username_def)
  have bad: "\<not> check_password_hash ?W (password ?row) ''bad''"
    by (simp add: plain_hashing_def)
  have good: "check_password_hash ?W (password ?row) ''pw''"
    by (simp add: plain_hashing_def)
  have reg: "registered ?W ?rs empty_store = [(''ann'', ''pw'')]"
    by (simp add: register_credentials_form register_post_fresh empty_store_def)
  note t = login_iff_registered [where W = ?W and sess = None]
  from bob ann bad good reg sound_plain_hashing
    t [where uname = "''bob''" and pw = "''pw''" and db = empty_store and row = ?row and rs = "[]"]
    t [where uname = "''ann''" and pw = "''bad''" and db = "run ?W ?rs empty_store"
         and row = ?row and rs = ?rs]
    t [where uname = "''ann''" and pw = "''pw''" and db = "run ?W ?rs empty_store"
         and row = ?row and rs = ?rs]
  show ?thesis
    by simp
qed

end
